theory Spec2Isabelle
  imports Main "HOL-Library.Sublist"
begin

text \<open>
  A model of parts of intelephense, a language server for PHP: the file cache
  (cache.ts) and, from the pass that reads symbols and references off a parse tree, the
  collection of unique symbols, the magic members of doc comments, the transformers of
  names, member accesses and \<open>define\<close> calls, and the post-order visit of the pass.
  Each definition follows the source function of the same name; what the source takes
  from files that are not at hand is a parameter or is said to be modelled from the spec.
\<close>

section \<open>The file cache (src/cache.ts)\<close>

text \<open>
  A bucket is a JSON array of \<open>[key, value]\<close> items. The value type \<open>'v\<close> stands for
  data that survives \<open>JSON.parse (JSON.stringify d)\<close> unchanged, so a file is modelled by
  the bucket it was written from. A promise that resolves is \<open>Inr\<close>, a promise that is
  rejected with a message is \<open>Inl\<close>; \<open>undefined\<close> is \<open>None\<close>.

  The file system is the state that is passed through: \<open>files\<close> maps a path to the
  bucket stored there (\<open>None\<close> is ENOENT), and \<open>ioError\<close> gives, for a path, the
  message of the error (other than ENOENT) that every operation on that path fails with.
\<close>

type_synonym 'v Item = "string \<times> 'v"

type_synonym 'v Bucket = "'v Item list"

record 'v FileSystem =
  files :: "string \<rightharpoonup> 'v Bucket"
  ioError :: "string \<Rightarrow> string option"

definition writeFile :: "'v FileSystem \<Rightarrow> string \<Rightarrow> 'v Bucket \<Rightarrow> string + 'v FileSystem" where
  "writeFile fs filePath bucket =
     (case ioError fs filePath of
        Some message \<Rightarrow> Inl message
      | None \<Rightarrow> Inr (fs\<lparr>files := (files fs)(filePath \<mapsto> bucket)\<rparr>))"

definition deleteFile :: "'v FileSystem \<Rightarrow> string \<Rightarrow> string + 'v FileSystem" where
  "deleteFile fs filePath =
     (case ioError fs filePath of
        Some message \<Rightarrow> Inl message
      | None \<Rightarrow> Inr (fs\<lparr>files := (files fs)(filePath := None)\<rparr>))"

definition readFile :: "'v FileSystem \<Rightarrow> string \<Rightarrow> string + 'v Bucket option" where
  "readFile fs filePath =
     (case ioError fs filePath of
        Some message \<Rightarrow> Inl message
      | None \<Rightarrow> Inr (files fs filePath))"

definition bucketFind :: "'v Bucket \<Rightarrow> string \<Rightarrow> 'v Item option" where
  "bucketFind bucket key = List.find (\<lambda>i. fst i = key) bucket"

definition bucketRemove :: "'v Bucket \<Rightarrow> string \<Rightarrow> 'v Bucket" where
  "bucketRemove bucket key = filter (\<lambda>b. fst b \<noteq> key) bucket"

text \<open>
  \<open>_filePath\<close> is \<open>path.join(this.path, Math.abs(util.hash32(key)).toString(16))\<close>.
  \<open>util.hash32\<close> is not among the source files, and \<open>path.join\<close> is the platform's
  (it normalises the path it builds): they are the parameters \<open>hash32\<close> and \<open>path_join\<close>
  of every operation of the cache.
\<close>

definition hexDigit :: "nat \<Rightarrow> char" where
  "hexDigit n = ''0123456789abcdef'' ! n"

function toString16 :: "nat \<Rightarrow> string" where
  "toString16 n = (if n < 16 then [hexDigit n] else toString16 (n div 16) @ [hexDigit (n mod 16)])"
  by pat_completeness auto
termination
  by (relation "measure (\<lambda>n. n)") auto

declare toString16.simps [simp del]

record FileCache =
  path :: string

definition filePath ::
  "(string \<Rightarrow> string \<Rightarrow> string) \<Rightarrow> (string \<Rightarrow> int) \<Rightarrow> FileCache \<Rightarrow> string \<Rightarrow> string" where
  "filePath path_join hash32 c key = path_join (path c) (toString16 (nat \<bar>hash32 key\<bar>))"

definition FileCache_read ::
  "(string \<Rightarrow> string \<Rightarrow> string) \<Rightarrow> (string \<Rightarrow> int) \<Rightarrow> FileCache \<Rightarrow> 'v FileSystem
     \<Rightarrow> string \<Rightarrow> string + 'v option" where
  "FileCache_read path_join hash32 c fs key =
     (case readFile fs (filePath path_join hash32 c key) of
        Inl message \<Rightarrow> Inl message
      | Inr None \<Rightarrow> Inr None
      | Inr (Some b) \<Rightarrow>
          (case bucketFind b key of
             Some item \<Rightarrow> Inr (Some (snd item))
           | None \<Rightarrow> Inr None))"

definition FileCache_write ::
  "(string \<Rightarrow> string \<Rightarrow> string) \<Rightarrow> (string \<Rightarrow> int) \<Rightarrow> FileCache \<Rightarrow> 'v FileSystem \<Rightarrow> string \<Rightarrow> 'v \<Rightarrow> string + 'v FileSystem" where
  "FileCache_write path_join hash32 c fs key data =
     (case readFile fs (filePath path_join hash32 c key) of
        Inl message \<Rightarrow> Inl message
      | Inr (Some b) \<Rightarrow> writeFile fs (filePath path_join hash32 c key) (bucketRemove b key @ [(key, data)])
      | Inr None \<Rightarrow> writeFile fs (filePath path_join hash32 c key) [(key, data)])"

definition FileCache_delete ::
  "(string \<Rightarrow> string \<Rightarrow> string) \<Rightarrow> (string \<Rightarrow> int) \<Rightarrow> FileCache \<Rightarrow> 'v FileSystem \<Rightarrow> string \<Rightarrow> string + 'v FileSystem" where
  "FileCache_delete path_join hash32 c fs key =
     (case readFile fs (filePath path_join hash32 c key) of
        Inl message \<Rightarrow> Inl message
      | Inr (Some b) \<Rightarrow>
          (if bucketFind b key \<noteq> None \<and> length b > 1
           then writeFile fs (filePath path_join hash32 c key) (bucketRemove b key)
           else deleteFile fs (filePath path_join hash32 c key))
      | Inr None \<Rightarrow> Inr fs)"

section \<open>Symbols (the model of symbol.ts that the transformers build)\<close>

text \<open>
  Modelled from the spec: the enumerations \<open>SymbolKind\<close> and \<open>SymbolModifier\<close> and the
  interface \<open>PhpSymbol\<close> are declared in symbol.ts, which is not among the source files.
  A kind is one flag of the enumeration, so the test
  \<open>s.kind & (SymbolKind.Parameter | SymbolKind.Variable)\<close> holds exactly for the kinds
  \<open>Parameter\<close> and \<open>Variable\<close>. The modifiers are a bit set over the flags of
  \<open>SymbolModifier\<close>: \<open>|\<close> is union and \<open>SymbolModifier.None\<close> is the empty set.
  A field that the code leaves \<open>undefined\<close> is \<open>None\<close>.
\<close>

datatype SymbolKind =
    KindNone | Class | Interface | Trait | Constant | Property | Method | Function
  | Parameter | Variable | Namespace | ClassConstant | File

datatype SymbolModifier =
    Public | Protected | Private | Static | Final | Abstract | Reference | Variadic
  | Anonymous | Use | Magic | ReadOnly | WriteOnly

type_synonym PackedRange = "nat \<times> nat"

type_synonym PackedLocation = "nat \<times> PackedRange"

definition locRange :: "PackedLocation \<Rightarrow> PackedRange" where
  "locRange loc = snd loc"

record Reference =
  refKind :: SymbolKind
  refName :: string
  refRange :: PackedRange
  unresolvedName :: "string option"
  refType :: "string option"

definition Reference_create :: "SymbolKind \<Rightarrow> string \<Rightarrow> PackedRange \<Rightarrow> Reference" where
  "Reference_create k n r =
     \<lparr>refKind = k, refName = n, refRange = r, unresolvedName = None, refType = None\<rparr>"

datatype PhpSymbolDoc =
  PhpSymbolDoc (description: "string option") (docType: "string option")

definition PhpSymbolDoc_create :: "string option \<Rightarrow> string option \<Rightarrow> PhpSymbolDoc" where
  "PhpSymbolDoc_create d t = PhpSymbolDoc d t"

datatype PhpSymbol =
  PhpSymbol
    (kind: SymbolKind)
    (name: string)
    (location: "PackedLocation option")
    (modifiers: "SymbolModifier set")
    (symType: "string option")
    (scope: "string option")
    (symValue: "string option")
    (doc: "PhpSymbolDoc option")
    (associated: "Reference list option")
    (children: "PhpSymbol list option")

definition PhpSymbol_create :: "SymbolKind \<Rightarrow> string \<Rightarrow> PackedLocation option \<Rightarrow> PhpSymbol" where
  "PhpSymbol_create k n loc = PhpSymbol k n loc {} None None None None None None"

definition setModifiers :: "SymbolModifier set \<Rightarrow> PhpSymbol \<Rightarrow> PhpSymbol" where
  "setModifiers m s =
     PhpSymbol (kind s) (name s) (location s) m (symType s) (scope s) (symValue s) (doc s)
       (associated s) (children s)"

definition setDoc :: "PhpSymbolDoc \<Rightarrow> PhpSymbol \<Rightarrow> PhpSymbol" where
  "setDoc d s =
     PhpSymbol (kind s) (name s) (location s) (modifiers s) (symType s) (scope s) (symValue s)
       (Some d) (associated s) (children s)"

definition setChildren :: "PhpSymbol list \<Rightarrow> PhpSymbol \<Rightarrow> PhpSymbol" where
  "setChildren cs s =
     PhpSymbol (kind s) (name s) (location s) (modifiers s) (symType s) (scope s) (symValue s)
       (doc s) (associated s) (Some cs)"

definition setValueAndType :: "string \<Rightarrow> string \<Rightarrow> PhpSymbol \<Rightarrow> PhpSymbol" where
  "setValueAndType v t s =
     PhpSymbol (kind s) (name s) (location s) (modifiers s) (Some t) (scope s) (Some v)
       (doc s) (associated s) (children s)"

section \<open>UniqueSymbolCollection\<close>


definition objectPrototypeKeys :: "string list" where
  "objectPrototypeKeys =
     [''constructor'', ''hasOwnProperty'', ''isPrototypeOf'', ''propertyIsEnumerable'',
      ''toLocaleString'', ''toString'', ''valueOf'', ''__proto__'', ''__defineGetter__'',
      ''__defineSetter__'', ''__lookupGetter__'', ''__lookupSetter__'']"

record UniqueSymbolCollection =
  symbols :: "PhpSymbol list"
  varMap :: "string list"







definition collectionLength :: "UniqueSymbolCollection \<Rightarrow> nat" where
  "collectionLength c = length (symbols c)"

section \<open>Magic members from doc tags (SymbolReader)\<close>

text \<open>
  \<open>Tag\<close>, \<open>MethodTagParam\<close> and \<open>PhpDoc\<close> are declared in phpDoc.ts, which is not among
  the source files; the records hold the fields the code reads. \<open>TypeString.nameResolve\<close>
  with the pass's name resolver is the parameter \<open>nameResolve\<close>.
\<close>

record MethodTagParam =
  paramTypeString :: string
  paramName :: string

record Tag =
  tagName :: string
  tagSymbolName :: string
  tagDescription :: string
  tagTypeString :: string
  isStatic :: bool
  parameters :: "MethodTagParam list option"

record PhpDoc =
  docText :: string
  propertyTags :: "Tag list"
  methodTags :: "Tag list"

definition magicPropertyModifier :: "Tag \<Rightarrow> SymbolModifier set" where
  "magicPropertyModifier t =
     (if tagName t = ''@property-read'' then {ReadOnly}
      else if tagName t = ''@property-write'' then {WriteOnly}
      else {})"

definition propertyTagToSymbol ::
  "(string \<Rightarrow> string) \<Rightarrow> Tag \<Rightarrow> PackedLocation \<Rightarrow> PhpSymbol" where
  "propertyTagToSymbol nameResolve t phpDocLoc =
     setDoc (PhpSymbolDoc_create (Some (tagDescription t)) (Some (nameResolve (tagTypeString t))))
       (setModifiers (magicPropertyModifier t \<union> {Magic} \<union> {Public})
          (PhpSymbol_create Property (tagSymbolName t) (Some phpDocLoc)))"

definition magicMethodParameterToSymbol ::
  "(string \<Rightarrow> string) \<Rightarrow> MethodTagParam \<Rightarrow> PackedLocation \<Rightarrow> PhpSymbol" where
  "magicMethodParameterToSymbol nameResolve p phpDocLoc =
     setDoc (PhpSymbolDoc_create None (Some (nameResolve (paramTypeString p))))
       (setModifiers {Magic} (PhpSymbol_create Parameter (paramName p) (Some phpDocLoc)))"

definition methodTagToSymbol ::
  "(string \<Rightarrow> string) \<Rightarrow> Tag \<Rightarrow> PackedLocation \<Rightarrow> PhpSymbol" where
  "methodTagToSymbol nameResolve t phpDocLoc =
     (let s0 = PhpSymbol_create Method (tagSymbolName t) (Some phpDocLoc);
          s1 = setModifiers ({Magic} \<union> {Public}) s0;
          s2 = setDoc (PhpSymbolDoc_create (Some (tagDescription t))
                 (Some (nameResolve (tagTypeString t)))) s1;
          s3 = setChildren [] s2;
          s4 = (if isStatic t then setModifiers (modifiers s3 \<union> {Static}) s3 else s3)
      in case parameters t of
           None \<Rightarrow> s4
         | Some ps \<Rightarrow>
             setChildren (map (\<lambda>p. magicMethodParameterToSymbol nameResolve p phpDocLoc) ps) s4)"

definition phpDocMembers ::
  "(string \<Rightarrow> string) \<Rightarrow> PhpDoc \<Rightarrow> PackedLocation \<Rightarrow> PhpSymbol list" where
  "phpDocMembers nameResolve phpDoc phpDocLoc =
     map (\<lambda>t. propertyTagToSymbol nameResolve t phpDocLoc) (propertyTags phpDoc) @
     map (\<lambda>t. methodTagToSymbol nameResolve t phpDocLoc) (methodTags phpDoc)"

text \<open>
  All the symbols synthesised from the tags of a doc comment: each magic member,
  followed by the symbols in its \<open>children\<close>, which are the parameters of a magic method.
\<close>

definition withChildren :: "PhpSymbol \<Rightarrow> PhpSymbol list" where
  "withChildren s = s # (case children s of None \<Rightarrow> [] | Some cs \<Rightarrow> cs)"

definition phpDocSymbols ::
  "(string \<Rightarrow> string) \<Rightarrow> PhpDoc \<Rightarrow> PackedLocation \<Rightarrow> PhpSymbol list" where
  "phpDocSymbols nameResolve phpDoc phpDocLoc =
     concat (map withChildren (phpDocMembers nameResolve phpDoc phpDocLoc))"

section \<open>Node transformers\<close>

text \<open>
  \<open>TokenType\<close> and \<open>PhraseType\<close> are the parser's enumerations (not among the source
  files); the datatypes list the members that the modelled code names and gather the
  others under \<open>TokenOther\<close> and \<open>PhraseOther\<close>. \<open>Unknown\<close> is the first member of
  \<open>PhraseType\<close>, the number 0. A syntax node is identified by a number.

  A transformer is one of the classes below. Reading a property that a class does not
  have gives \<open>undefined\<close>: the accessors \<open>node\<close>, \<open>phraseType\<close>, \<open>tokenType\<close>,
  \<open>reference\<close> and \<open>transforms\<close> return \<open>None\<close> there. A \<open>TypeError\<close> is what reading or
  writing a property of \<open>undefined\<close> or \<open>null\<close> throws.

  A reference object is shared by the transformer that created it, the \<open>reference\<close> slot
  of its syntax node and every transformer that later takes it over; an operation that
  writes to the object returns the holder with the updated reference.
\<close>

datatype TokenType =
  Name | VariableName | StringLiteral | IntegerLiteral | FloatingLiteral | TokenOther nat

datatype PhraseType =
    Unknown | ArgumentExpressionList | FunctionCallExpression | NamespaceName
  | QualifiedName | FullyQualifiedName | RelativeQualifiedName | SimpleVariable
  | MemberName | ScopedMemberName | Identifier
  | ClassDeclarationHeader | InterfaceDeclarationHeader | TraitDeclarationHeader
  | FunctionDeclarationHeader | MethodDeclarationHeader
  | AnonymousClassDeclarationHeader | AnonymousFunctionHeader
  | ConstElement | PropertyElement | ClassConstElement | ParameterDeclaration
  | AnonymousFunctionUseVariable | RelativeScope
  | ScopedCallExpression | ScopedPropertyAccessExpression | ClassConstantAccessExpression
  | PropertyAccessExpression | MethodCallExpression
  | PhraseOther nat

datatype error = TypeError

datatype NodeTransformer =
    TokenTransform nat TokenType string PackedLocation
  | DefaultNodeTransformer nat PhraseType string
  | DelimiteredListTransformer PhraseType "NodeTransformer list"
  | NamespaceNameTransformer nat string Reference
  | MemberNameTransform nat Reference
  | ScopedMemberNameTransform nat Reference
  | IdentifierTransformer string "PackedLocation option"
  | SimpleVariableTransform nat PackedLocation "PhpSymbol option" "Reference option"

fun node :: "NodeTransformer \<Rightarrow> nat option" where
  "node (TokenTransform n tt t loc) = Some n"
| "node (DefaultNodeTransformer n pt t) = Some n"
| "node (DelimiteredListTransformer pt ts) = None"
| "node (NamespaceNameTransformer n t r) = Some n"
| "node (MemberNameTransform n r) = Some n"
| "node (ScopedMemberNameTransform n r) = Some n"
| "node (IdentifierTransformer t loc) = None"
| "node (SimpleVariableTransform n loc s r) = Some n"

fun phraseType :: "NodeTransformer \<Rightarrow> PhraseType option" where
  "phraseType (TokenTransform n tt t loc) = None"
| "phraseType (DefaultNodeTransformer n pt t) = Some pt"
| "phraseType (DelimiteredListTransformer pt ts) = Some pt"
| "phraseType (NamespaceNameTransformer n t r) = Some NamespaceName"
| "phraseType (MemberNameTransform n r) = Some MemberName"
| "phraseType (ScopedMemberNameTransform n r) = Some ScopedMemberName"
| "phraseType (IdentifierTransformer t loc) = Some Identifier"
| "phraseType (SimpleVariableTransform n loc s r) = Some SimpleVariable"

fun tokenType :: "NodeTransformer \<Rightarrow> TokenType option" where
  "tokenType (TokenTransform n tt t loc) = Some tt"
| "tokenType _ = None"

fun reference :: "NodeTransformer \<Rightarrow> Reference option" where
  "reference (NamespaceNameTransformer n t r) = Some r"
| "reference (MemberNameTransform n r) = Some r"
| "reference (ScopedMemberNameTransform n r) = Some r"
| "reference (SimpleVariableTransform n loc s r) = r"
| "reference _ = None"

fun withReference :: "Reference \<Rightarrow> NodeTransformer \<Rightarrow> NodeTransformer" where
  "withReference r (NamespaceNameTransformer n t _) = NamespaceNameTransformer n t r"
| "withReference r (MemberNameTransform n _) = MemberNameTransform n r"
| "withReference r (ScopedMemberNameTransform n _) = ScopedMemberNameTransform n r"
| "withReference r (SimpleVariableTransform n loc s _) = SimpleVariableTransform n loc s (Some r)"
| "withReference r t = t"

fun transforms :: "NodeTransformer \<Rightarrow> NodeTransformer list option" where
  "transforms (DelimiteredListTransformer pt ts) = Some ts"
| "transforms _ = None"

subsection \<open>MemberNameTransform and NamespaceNameTransformer\<close>

definition MemberNameTransform_new :: "nat \<Rightarrow> PackedLocation \<Rightarrow> NodeTransformer" where
  "MemberNameTransform_new n loc =
     MemberNameTransform n (Reference_create KindNone [] (locRange loc))"

fun MemberNameTransform_push :: "NodeTransformer \<Rightarrow> NodeTransformer \<Rightarrow> NodeTransformer" where
  "MemberNameTransform_push (MemberNameTransform n r) (TokenTransform m tt t loc) =
     (if tt = Name then MemberNameTransform n (r\<lparr>refName := t\<rparr>) else MemberNameTransform n r)"
| "MemberNameTransform_push self transformer = self"

definition backslash :: char where
  "backslash = CHR 0x5C"

definition NamespaceNameTransformer_new :: "nat \<Rightarrow> PackedRange \<Rightarrow> NodeTransformer" where
  "NamespaceNameTransformer_new n r = NamespaceNameTransformer n [] (Reference_create Class [] r)"

fun NamespaceNameTransformer_push :: "NodeTransformer \<Rightarrow> NodeTransformer \<Rightarrow> NodeTransformer" where
  "NamespaceNameTransformer_push (NamespaceNameTransformer n txt r) (TokenTransform m tt t loc) =
     (if tt = Name then
        (let txt' = (if txt \<noteq> [] then txt @ [backslash] @ t else t)
         in NamespaceNameTransformer n txt' (r\<lparr>refName := txt'\<rparr>))
      else NamespaceNameTransformer n txt r)"
| "NamespaceNameTransformer_push self transformer = self"

text \<open>The NamespaceName transformer of node \<open>n\<close> after its tokens \<open>ts\<close> were pushed in order.\<close>

definition namespaceNameOf :: "nat \<Rightarrow> PackedRange \<Rightarrow> NodeTransformer list \<Rightarrow> NodeTransformer" where
  "namespaceNameOf n r ts = foldl NamespaceNameTransformer_push (NamespaceNameTransformer_new n r) ts"

fun namespaceNameText :: "NodeTransformer \<Rightarrow> string" where
  "namespaceNameText (NamespaceNameTransformer n txt r) = txt"
| "namespaceNameText _ = []"

subsection \<open>MemberAccessExpressionTransform\<close>

text \<open>
  \<open>push\<close> writes to the reference of the transformer it absorbs, which is also the
  reference in the slot of the member-name node: \<open>adornMemberName\<close> is what it does to
  the reference, and the push returns the absorbed transformer with it.
\<close>

record MemberAccessExpressionTransform =
  accessPhraseType :: PhraseType
  symbolKind :: SymbolKind

definition adornMemberName :: "SymbolKind \<Rightarrow> Reference \<Rightarrow> Reference" where
  "adornMemberName k r =
     (let r1 = r\<lparr>refKind := k\<rparr>
      in if k = Property \<and> refName r1 \<noteq> [] \<and> hd (refName r1) \<noteq> CHR ''$''
         then r1\<lparr>refName := CHR ''$'' # refName r1\<rparr>
         else r1)"

definition MemberAccessExpressionTransform_push ::
  "MemberAccessExpressionTransform \<Rightarrow> NodeTransformer \<Rightarrow> error + NodeTransformer" where
  "MemberAccessExpressionTransform_push self transformer =
     (if phraseType transformer = Some ScopedMemberName \<or> phraseType transformer = Some MemberName
      then (case reference transformer of
              None \<Rightarrow> Inl TypeError
            | Some r \<Rightarrow> Inr (withReference (adornMemberName (symbolKind self) r) transformer))
      else Inr transformer)"

subsection \<open>QualifiedNameTransformer\<close>

text \<open>
  Strings are lists of 8-bit characters; \<open>toLowerCase\<close> maps the letters \<open>A\<close> to \<open>Z\<close>
  to \<open>a\<close> to \<open>z\<close> and leaves every other character as it is.
\<close>

definition isUpperCase :: "char \<Rightarrow> bool" where
  "isUpperCase c \<longleftrightarrow> (65::nat) \<le> of_char c \<and> of_char c \<le> (90::nat)"

definition toLowerCaseChar :: "char \<Rightarrow> char" where
  "toLowerCaseChar c = (if isUpperCase c then char_of (of_char c + (32::nat)) else c)"

definition toLowerCase :: "string \<Rightarrow> string" where
  "toLowerCase s = map toLowerCaseChar s"

definition RESERVED_WORDS :: "string list" where
  "RESERVED_WORDS =
     [''int'', ''string'', ''bool'', ''float'', ''iterable'', ''true'', ''false'', ''null'',
      ''void'', ''object'']"

text \<open>
  \<open>RESERVED_WORDS[lc]\<close> is truthy for the keys of the table and, the table being a plain
  object, for the property names it inherits from \<open>Object.prototype\<close>.
\<close>

definition reservedWord :: "string \<Rightarrow> bool" where
  "reservedWord lc \<longleftrightarrow> lc \<in> set RESERVED_WORDS \<or> lc \<in> set objectPrototypeKeys"

text \<open>
  \<open>NameResolver.resolveNotFullyQualified\<close> (nameResolver.ts, not among the source
  files) is the parameter \<open>resolveNotFullyQualified\<close>.
\<close>

text \<open>
  \<open>push\<close> takes over the reference of the NamespaceName transformer (the one in the slot
  of the NamespaceName node) and writes to it; the push returns the transformer with
  that reference as its own.
\<close>

record QualifiedNameTransformer =
  qnKind :: SymbolKind
  qnReference :: "Reference option"

definition QualifiedNameTransformer_new :: "SymbolKind \<Rightarrow> QualifiedNameTransformer" where
  "QualifiedNameTransformer_new k = \<lparr>qnKind = k, qnReference = None\<rparr>"

definition QualifiedNameTransformer_push ::
  "(string \<Rightarrow> SymbolKind \<Rightarrow> string) \<Rightarrow> QualifiedNameTransformer \<Rightarrow> NodeTransformer
     \<Rightarrow> error + QualifiedNameTransformer" where
  "QualifiedNameTransformer_push resolveNotFullyQualified self transformer =
     (if phraseType transformer = Some NamespaceName then
        (case reference transformer of
           None \<Rightarrow> Inl TypeError
         | Some r0 \<Rightarrow>
             (let r1 = r0\<lparr>refKind := qnKind self\<rparr>;
                  unresolved = refName r1;
                  lcUnresolvedName = toLowerCase unresolved
              in if reservedWord lcUnresolvedName then Inr (self\<lparr>qnReference := Some r1\<rparr>)
                 else
                   (let r2 = r1\<lparr>refName := resolveNotFullyQualified unresolved (qnKind self)\<rparr>
                    in if (qnKind self = Function \<or> qnKind self = Constant)
                          \<and> refName r2 \<noteq> unresolved
                       then Inr (self\<lparr>qnReference := Some (r2\<lparr>unresolvedName := Some unresolved\<rparr>)\<rparr>)
                       else Inr (self\<lparr>qnReference := Some r2\<rparr>))))
      else Inr self)"

subsection \<open>DefineFunctionCallExpressionTransform\<close>

definition tokenTypeToPhpType :: "TokenType \<Rightarrow> string" where
  "tokenTypeToPhpType tt =
     (if tt = StringLiteral then ''string''
      else if tt = IntegerLiteral then ''int''
      else if tt = FloatingLiteral then ''float''
      else [])"

record DefineFunctionCallExpressionTransform =
  defineNode :: nat
  defineLocation :: PackedLocation
  defineSymbol :: "PhpSymbol option"
  defineReference :: "Reference option"

definition DefineFunctionCallExpressionTransform_new ::
  "nat \<Rightarrow> PackedLocation \<Rightarrow> DefineFunctionCallExpressionTransform" where
  "DefineFunctionCallExpressionTransform_new n loc =
     \<lparr>defineNode = n, defineLocation = loc, defineSymbol = None, defineReference = None\<rparr>"

text \<open>
  \<open>push\<close> has two steps: \<open>defineConstant\<close> is its first \<open>if\<close>, on \<open>arg1\<close>, and
  \<open>defineValue\<close> its second, on \<open>arg2\<close>. The reference it creates is also put in the
  slot of the call's node.

  \<open>text.slice(1, -1)\<close> is the text without its first and its last character.
\<close>

definition removeQuotes :: "string \<Rightarrow> string" where
  "removeQuotes t = butlast (drop 1 t)"

text \<open>\<open>[arg1, arg2] = transforms\<close>: an element past the end of the array is \<open>undefined\<close>.\<close>

definition element :: "'a list \<Rightarrow> nat \<Rightarrow> 'a option" where
  "element xs i = (if i < length xs then Some (xs ! i) else None)"

definition defineConstant ::
  "DefineFunctionCallExpressionTransform \<Rightarrow> NodeTransformer option
     \<Rightarrow> DefineFunctionCallExpressionTransform" where
  "defineConstant self arg1 =
     (case arg1 of
        Some (TokenTransform m tt t loc) \<Rightarrow>
          (if tt = StringLiteral then
             (let constName0 = removeQuotes t;
                  constName = (if constName0 \<noteq> [] \<and> hd constName0 = backslash
                               then drop 1 constName0 else constName0)
              in self\<lparr>defineSymbol :=
                         Some (PhpSymbol_create Constant constName (Some (defineLocation self))),
                       defineReference :=
                         Some (Reference_create Constant constName (locRange loc))\<rparr>)
           else self)
      | _ \<Rightarrow> self)"

definition defineValue ::
  "DefineFunctionCallExpressionTransform \<Rightarrow> NodeTransformer option
     \<Rightarrow> error + DefineFunctionCallExpressionTransform" where
  "defineValue self arg2 =
     (case arg2 of
        Some (TokenTransform m tt t loc) \<Rightarrow>
          (if tt = FloatingLiteral \<or> tt = IntegerLiteral \<or> tt = StringLiteral then
             (case defineSymbol self of
                None \<Rightarrow> Inl TypeError
              | Some s \<Rightarrow>
                  Inr (self\<lparr>defineSymbol := Some (setValueAndType t (tokenTypeToPhpType tt) s)\<rparr>))
           else Inr self)
      | _ \<Rightarrow> Inr self)"

text \<open>
  The pre-order visit creates the transformer for a FunctionCallExpression whose first
  child has the text \<open>define\<close> or \<open>\define\<close>, compared in lower case.
\<close>

definition isDefine :: "string \<Rightarrow> bool" where
  "isDefine calleeText \<longleftrightarrow>
     toLowerCase calleeText = ''define'' \<or> toLowerCase calleeText = [backslash] @ ''define''"

definition DefineFunctionCallExpressionTransform_push ::
  "DefineFunctionCallExpressionTransform \<Rightarrow> NodeTransformer
     \<Rightarrow> error + DefineFunctionCallExpressionTransform" where
  "DefineFunctionCallExpressionTransform_push self transformer =
     (if phraseType transformer = Some ArgumentExpressionList then
        (case transforms transformer of
           None \<Rightarrow> Inl TypeError
         | Some ts \<Rightarrow> defineValue (defineConstant self (element ts 0)) (element ts 1))
      else Inr self)"

section \<open>SymbolsPass: the post-order visit\<close>

text \<open>
  The pass keeps \<open>references\<close> (set to the empty array by the constructor) and the stack
  of transformers, whose top is the last element; a node without a transformer has
  \<open>null\<close> or \<open>undefined\<close> on the stack (\<open>None\<close>). \<open>addRefName\<close> adds to
  \<open>this.referenceNameSet\<close>, a property that the class neither declares nor assigns: it is
  \<open>undefined\<close> (\<open>None\<close>) after the constructor.

  \<open>parent.push(transformer)\<close> dispatches on the class of the parent: it is the parameter
  \<open>absorb\<close>, which returns the parent after the push. The \<open>reference\<close> slot of a syntax
  node, \<open>nodeReference\<close>, is what the slot holds when the visit reads it.
\<close>

datatype ReferenceSlot =
  NoReference | OneReference Reference | ReferenceArray "Reference option list"

record Node =
  nodeId :: nat
  nodePhraseType :: "PhraseType option"
  nodeReference :: ReferenceSlot

record SymbolsPass =
  lastPhpDoc :: "PhpDoc option"
  lastPhpDocLocation :: "PackedLocation option"
  references :: "Reference list"
  referenceNameSet :: "string set option"
  transformerStack :: "NodeTransformer option list"
  lastTransformer :: "NodeTransformer option"

definition SymbolsPass_new :: SymbolsPass where
  "SymbolsPass_new =
     \<lparr>lastPhpDoc = None, lastPhpDocLocation = None, references = [], referenceNameSet = None,
      transformerStack = [], lastTransformer = None\<rparr>"

definition referenceNameSet_add :: "string \<Rightarrow> SymbolsPass \<Rightarrow> error + SymbolsPass" where
  "referenceNameSet_add n p =
     (case referenceNameSet p of
        None \<Rightarrow> Inl TypeError
      | Some names \<Rightarrow> Inr (p\<lparr>referenceNameSet := Some (insert n names)\<rparr>))"

definition addRefName :: "SymbolsPass \<Rightarrow> Reference option \<Rightarrow> error + SymbolsPass" where
  "addRefName p ref =
     (case ref of
        None \<Rightarrow> Inr p
      | Some r \<Rightarrow>
          (case (if refName r \<noteq> [] then referenceNameSet_add (refName r) p else Inr p) of
             Inl e \<Rightarrow> Inl e
           | Inr p1 \<Rightarrow>
               (case unresolvedName r of
                  None \<Rightarrow> Inr p1
                | Some u \<Rightarrow> if u \<noteq> [] then referenceNameSet_add u p1 else Inr p1)))"

fun addRefNames :: "SymbolsPass \<Rightarrow> Reference option list \<Rightarrow> error + SymbolsPass" where
  "addRefNames p [] = Inr p"
| "addRefNames p (r # rs) =
     (case addRefName p r of Inl e \<Rightarrow> Inl e | Inr p1 \<Rightarrow> addRefNames p1 rs)"

definition clearsPhpDoc :: "PhraseType \<Rightarrow> bool" where
  "clearsPhpDoc pt \<longleftrightarrow>
     pt \<in> {ClassDeclarationHeader, InterfaceDeclarationHeader, AnonymousClassDeclarationHeader,
           FunctionDeclarationHeader, MethodDeclarationHeader, TraitDeclarationHeader,
           AnonymousFunctionHeader}"

definition hasReferenceInfo :: "PhraseType \<Rightarrow> bool" where
  "hasReferenceInfo pt \<longleftrightarrow>
     pt \<in> {FullyQualifiedName, QualifiedName, RelativeQualifiedName, SimpleVariable, MemberName,
           ScopedMemberName, NamespaceName, ClassDeclarationHeader, InterfaceDeclarationHeader,
           TraitDeclarationHeader, FunctionDeclarationHeader, ConstElement, PropertyElement,
           ClassConstElement, MethodDeclarationHeader, ParameterDeclaration,
           AnonymousFunctionUseVariable, RelativeScope}"

definition pushToAncestor ::
  "(NodeTransformer \<Rightarrow> NodeTransformer \<Rightarrow> error + NodeTransformer)
     \<Rightarrow> NodeTransformer option list \<Rightarrow> NodeTransformer \<Rightarrow> error + NodeTransformer option list" where
  "pushToAncestor absorb stack transformer =
     (if stack = [] then Inr stack
      else (case last stack of
              None \<Rightarrow> Inl TypeError
            | Some parent \<Rightarrow>
                (case absorb parent transformer of
                   Inl e \<Rightarrow> Inl e
                 | Inr parent' \<Rightarrow> Inr (butlast stack @ [Some parent']))))"

definition collectReferences :: "SymbolsPass \<Rightarrow> PhraseType \<Rightarrow> ReferenceSlot \<Rightarrow> error + SymbolsPass" where
  "collectReferences p pt slot =
     (if hasReferenceInfo pt then
        (case slot of
           ReferenceArray refs \<Rightarrow> addRefNames p refs
         | OneReference r \<Rightarrow> addRefName p (Some r)
         | NoReference \<Rightarrow> addRefName p None)
      else Inr p)"

definition postorder ::
  "(NodeTransformer \<Rightarrow> NodeTransformer \<Rightarrow> error + NodeTransformer)
     \<Rightarrow> SymbolsPass \<Rightarrow> Node \<Rightarrow> error + SymbolsPass" where
  "postorder absorb p n =
     (case nodePhraseType n of
        None \<Rightarrow> Inr p
      | Some pt \<Rightarrow>
          if pt = Unknown then Inr p
          else if transformerStack p = [] then Inl TypeError
          else (case last (transformerStack p) of
                  None \<Rightarrow> Inl TypeError
                | Some transformer \<Rightarrow>
                    if node transformer \<noteq> Some (nodeId n) then Inr p
                    else (case pushToAncestor absorb (butlast (transformerStack p)) transformer of
                            Inl e \<Rightarrow> Inl e
                          | Inr stack \<Rightarrow>
                              (let p1 = p\<lparr>transformerStack := stack,
                                          lastTransformer := Some transformer\<rparr>;
                                   p2 = (if clearsPhpDoc pt
                                         then p1\<lparr>lastPhpDoc := None, lastPhpDocLocation := None\<rparr>
                                         else p1)
                               in collectReferences p2 pt (nodeReference n)))))"

text \<open>
  The states of a pass during a walk. The pre-order visit assigns \<open>lastPhpDoc\<close>,
  \<open>lastPhpDocLocation\<close> and the transformer stack, and nothing else of the pass (it also
  writes to the name resolver and to transformers); the post-order visit is \<open>postorder\<close>.
  The first state is the constructed pass, with whatever \<open>referenceNameSet\<close> was assigned
  to it from outside.
\<close>

inductive reachable ::
  "(NodeTransformer \<Rightarrow> NodeTransformer \<Rightarrow> error + NodeTransformer) \<Rightarrow> SymbolsPass \<Rightarrow> bool"
  for absorb where
  constructed: "reachable absorb (SymbolsPass_new\<lparr>referenceNameSet := names\<rparr>)"
| preorderVisit:
    "reachable absorb p \<Longrightarrow>
     reachable absorb
       (p\<lparr>lastPhpDoc := d, lastPhpDocLocation := l, transformerStack := stack\<rparr>)"
| postorderVisit:
    "reachable absorb p \<Longrightarrow> postorder absorb p n = Inr p' \<Longrightarrow> reachable absorb p'"


section \<open>Invariant of the collection\<close>


section \<open>Properties of the file cache\<close>

lemma bucketFind_after_write:
  "bucketFind (bucketRemove b key @ [(key, data)]) key = Some (key, data)"
  by (induction b) (auto simp: bucketFind_def bucketRemove_def)

lemma bucketFind_other_after_write:
  "key' \<noteq> key \<Longrightarrow> bucketFind (bucketRemove b key @ [(key, data)]) key' = bucketFind b key'"
  by (induction b) (auto simp: bucketFind_def bucketRemove_def)

text \<open>
  C4. When the bucket file of \<open>key\<close> can be read and written, \<open>write(key, data)\<close>
  resolves, and on the file system it leaves \<open>read(key)\<close> resolves to \<open>data\<close>, whatever
  the bucket held before (entries of colliding keys, an older entry of \<open>key\<close>). A read
  of any other key, colliding or not, resolves to what it resolved to before the write.
\<close>

theorem write_then_read:
  assumes "ioError fs (filePath path_join hash32 c key) = None"
  shows "\<exists>fs'. FileCache_write path_join hash32 c fs key data = Inr fs'
           \<and> FileCache_read path_join hash32 c fs' key = Inr (Some data)
           \<and> (\<forall>key'. key' \<noteq> key \<longrightarrow>
                  FileCache_read path_join hash32 c fs' key' = FileCache_read path_join hash32 c fs key')"
proof (cases "files fs (filePath path_join hash32 c key)")
  case None
  let ?fs' = "fs\<lparr>files := (files fs)(filePath path_join hash32 c key \<mapsto> [(key, data)])\<rparr>"
  have w: "FileCache_write path_join hash32 c fs key data = Inr ?fs'"
    using assms None by (simp add: FileCache_write_def readFile_def writeFile_def)
  have r: "FileCache_read path_join hash32 c ?fs' key = Inr (Some data)"
    using assms by (simp add: FileCache_read_def readFile_def bucketFind_def)
  have o: "FileCache_read path_join hash32 c ?fs' key' = FileCache_read path_join hash32 c fs key'"
    if "key' \<noteq> key" for key'
    using that assms None
    by (cases "filePath path_join hash32 c key' = filePath path_join hash32 c key")
      (auto simp: FileCache_read_def readFile_def bucketFind_def split: option.splits)
  from w r o show ?thesis by blast
next
  case (Some b)
  let ?b' = "bucketRemove b key @ [(key, data)]"
  let ?fs' = "fs\<lparr>files := (files fs)(filePath path_join hash32 c key \<mapsto> ?b')\<rparr>"
  have w: "FileCache_write path_join hash32 c fs key data = Inr ?fs'"
    using assms Some by (simp add: FileCache_write_def readFile_def writeFile_def)
  have r: "FileCache_read path_join hash32 c ?fs' key = Inr (Some data)"
    using assms by (simp add: FileCache_read_def readFile_def bucketFind_after_write)
  have o: "FileCache_read path_join hash32 c ?fs' key' = FileCache_read path_join hash32 c fs key'"
    if "key' \<noteq> key" for key'
    using that assms Some
    by (cases "filePath path_join hash32 c key' = filePath path_join hash32 c key")
      (auto simp: FileCache_read_def readFile_def bucketFind_other_after_write
         split: option.splits)
  from w r o show ?thesis by blast
qed

theorem write_then_read_witness:
  "\<exists>fs'. FileCache_write (\<lambda>d n. d @ ''/'' @ n) (\<lambda>s. int (length s)) \<lparr>path = ''cache''\<rparr>
            \<lparr>files = [''cache/2'' \<mapsto> [(''BB'', 1::nat)]], ioError = \<lambda>p. None\<rparr> ''Aa'' 2 = Inr fs'
       \<and> FileCache_read (\<lambda>d n. d @ ''/'' @ n) (\<lambda>s. int (length s)) \<lparr>path = ''cache''\<rparr> fs' ''Aa'' = Inr (Some 2)
       \<and> FileCache_read (\<lambda>d n. d @ ''/'' @ n) (\<lambda>s. int (length s)) \<lparr>path = ''cache''\<rparr> fs' ''BB'' = Inr (Some 1)"
proof -
  let ?j = "\<lambda>(d::string) (n::string). d @ ''/'' @ n"
  let ?h = "\<lambda>s::string. int (length s)"
  let ?c = "\<lparr>path = ''cache''\<rparr>"
  let ?fs = "\<lparr>files = [''cache/2'' \<mapsto> [(''BB'', 1::nat)]], ioError = \<lambda>p. None\<rparr>"
  have pre: "ioError ?fs (filePath ?j ?h ?c ''Aa'') = None"
    by simp
  have old: "FileCache_read ?j ?h ?c ?fs ''BB'' = Inr (Some 1)"
    by (simp add: FileCache_read_def readFile_def filePath_def
        toString16.simps hexDigit_def bucketFind_def)
  from write_then_read[OF pre, of 2] obtain fs' where
    w: "FileCache_write ?j ?h ?c ?fs ''Aa'' 2 = Inr fs'"
    and r: "FileCache_read ?j ?h ?c fs' ''Aa'' = Inr (Some 2)"
    and o: "\<forall>key'. key' \<noteq> ''Aa'' \<longrightarrow> FileCache_read ?j ?h ?c fs' key' = FileCache_read ?j ?h ?c ?fs key'"
    by blast
  from o old have "FileCache_read ?j ?h ?c fs' ''BB'' = Inr (Some 1)"
    by simp
  with w r show ?thesis by blast
qed

text \<open>
  When the bucket of \<open>key\<close> does not hold \<open>key\<close>, or holds one entry only, \<open>delete\<close>
  takes the second branch and unlinks the whole bucket file.
\<close>

lemma delete_unlinks_bucket_without_key:
  assumes "ioError fs (filePath path_join hash32 c key) = None"
    and "files fs (filePath path_join hash32 c key) = Some b"
    and "bucketFind b key = None \<or> length b \<le> 1"
  shows "FileCache_delete path_join hash32 c fs key
           = Inr (fs\<lparr>files := (files fs)(filePath path_join hash32 c key := None)\<rparr>)"
  using assms by (auto simp: FileCache_delete_def readFile_def deleteFile_def)

text \<open>
  C3. With a hash under which the keys \<open>Aa\<close> and \<open>BB\<close> share the bucket file
  \<open>cache/2\<close>, and the bucket holding the single entry \<open>[BB, 1]\<close>: \<open>read(BB)\<close> resolves
  to 1; \<open>delete(Aa)\<close>, a key that is not in the bucket, resolves and leaves no file; after
  it \<open>read(BB)\<close> resolves to \<open>undefined\<close>. The entry of the other key is lost.
\<close>

theorem delete_removes_colliding_entry:
  "FileCache_read (\<lambda>d n. d @ ''/'' @ n) (\<lambda>s. int (length s)) \<lparr>path = ''cache''\<rparr>
     \<lparr>files = [''cache/2'' \<mapsto> [(''BB'', 1::nat)]], ioError = \<lambda>p. None\<rparr> ''BB'' = Inr (Some 1)
   \<and> FileCache_delete (\<lambda>d n. d @ ''/'' @ n) (\<lambda>s. int (length s)) \<lparr>path = ''cache''\<rparr>
     \<lparr>files = [''cache/2'' \<mapsto> [(''BB'', 1::nat)]], ioError = \<lambda>p. None\<rparr> ''Aa''
     = Inr \<lparr>files = Map.empty, ioError = \<lambda>p. None\<rparr>
   \<and> FileCache_read (\<lambda>d n. d @ ''/'' @ n) (\<lambda>s. int (length s)) \<lparr>path = ''cache''\<rparr>
     \<lparr>files = Map.empty, ioError = \<lambda>p. None\<rparr> ''BB'' = Inr (None :: nat option)"
  by (simp add: FileCache_read_def FileCache_delete_def readFile_def deleteFile_def
      filePath_def toString16.simps hexDigit_def bucketFind_def)

section \<open>Properties of the define transformer\<close>

text \<open>
  Without a string literal as first argument the transformer creates neither the symbol
  nor the reference.
\<close>

lemma define_without_string_name:
  assumes "\<forall>m t loc. element ts 0 \<noteq> Some (TokenTransform m StringLiteral t loc)"
  shows "defineConstant self (element ts 0) = self"
  using assms
  by (auto simp: defineConstant_def split: option.splits NodeTransformer.splits)

text \<open>
  \<open>define('MY_CONST', 42)\<close> gives the Constant symbol \<open>MY_CONST\<close> with value \<open>42\<close> and
  type \<open>int\<close>, and a Constant reference at the range of the first argument.
\<close>

lemma define_string_name_and_scalar_value:
  "DefineFunctionCallExpressionTransform_push
     (DefineFunctionCallExpressionTransform_new 2 (0, (6, 28)))
     (DelimiteredListTransformer ArgumentExpressionList
        [TokenTransform 4 StringLiteral (CHR 0x27 # ''MY_CONST'' @ [CHR 0x27]) (0, (13, 23)),
         TokenTransform 5 IntegerLiteral ''42'' (0, (25, 27))])
   = Inr \<lparr>defineNode = 2, defineLocation = (0, (6, 28)),
          defineSymbol = Some (setValueAndType ''42'' ''int''
            (PhpSymbol_create Constant ''MY_CONST'' (Some (0, (6, 28))))),
          defineReference = Some (Reference_create Constant ''MY_CONST'' (13, 23))\<rparr>"
  by (simp add: DefineFunctionCallExpressionTransform_push_def
      DefineFunctionCallExpressionTransform_new_def defineValue_def defineConstant_def
      element_def removeQuotes_def backslash_def tokenTypeToPhpType_def locRange_def Let_def)

text \<open>
  C1. \<open>define(42, 'x')\<close>: the argument list holds an integer literal and a string
  literal. The first argument is not a string literal, so no symbol is created; the
  second is a scalar literal, so the transformer writes \<open>value\<close> to the symbol that is
  \<open>undefined\<close>, and the push throws a TypeError.
\<close>

theorem define_non_string_name_panics:
  "isDefine ''define''
   \<and> DefineFunctionCallExpressionTransform_push
     (DefineFunctionCallExpressionTransform_new 2 (0, (6, 21)))
     (DelimiteredListTransformer ArgumentExpressionList
        [TokenTransform 4 IntegerLiteral ''42'' (0, (13, 15)),
         TokenTransform 5 StringLiteral (CHR 0x27 # ''x'' @ [CHR 0x27]) (0, (17, 20))])
     = Inl TypeError"
proof -
  have "isDefine ''define''"
    by code_simp
  then show ?thesis
    by (simp add: DefineFunctionCallExpressionTransform_push_def
        DefineFunctionCallExpressionTransform_new_def defineValue_def defineConstant_def
        element_def)
qed

section \<open>Properties of the post-order visit\<close>

lemma addRefName_references: "addRefName p r = Inr p' \<Longrightarrow> references p' = references p"
  by (auto simp: addRefName_def referenceNameSet_add_def split: option.splits if_splits sum.splits)

lemma addRefNames_references: "addRefNames p rs = Inr p' \<Longrightarrow> references p' = references p"
  by (induction rs arbitrary: p) (auto split: sum.splits dest: addRefName_references)

lemma collectReferences_references:
  "collectReferences p pt slot = Inr p' \<Longrightarrow> references p' = references p"
  by (auto simp: collectReferences_def split: if_splits ReferenceSlot.splits
      dest: addRefName_references addRefNames_references)

text \<open>No post-order visit changes the list \<open>references\<close>.\<close>

lemma postorder_references:
  "postorder absorb p n = Inr p' \<Longrightarrow> references p' = references p"
  by (auto simp: postorder_def Let_def split: option.splits if_splits sum.splits
      dest!: collectReferences_references)

text \<open>At every state of a walk the list \<open>references\<close> is empty.\<close>

lemma walk_references_empty: "reachable absorb p \<Longrightarrow> references p = []"
  by (induction rule: reachable.induct)
    (auto simp: SymbolsPass_new_def dest: postorder_references)

text \<open>
  C2. The post-order visit of the SimpleVariable node of \<open>$a\<close>, whose transformer is on
  top of the stack and whose reference slot holds the Variable reference \<open>$a\<close>: on the
  pass as its constructor leaves it, the visit throws a TypeError, since
  \<open>referenceNameSet\<close> is \<open>undefined\<close>; on a pass whose \<open>referenceNameSet\<close> was assigned
  an empty set, the visit adds the name \<open>$a\<close> to that set and \<open>references\<close> is still
  empty. In neither case is the reference appended to \<open>references\<close>.
\<close>

theorem postorder_never_appends_reference:
  "postorder absorb
     (SymbolsPass_new\<lparr>transformerStack :=
        [Some (SimpleVariableTransform 1 (0, (6, 8))
           (Some (PhpSymbol_create Variable ''$a'' (Some (0, (6, 8)))))
           (Some (Reference_create Variable ''$a'' (6, 8))))]\<rparr>)
     \<lparr>nodeId = 1, nodePhraseType = Some SimpleVariable,
      nodeReference = OneReference (Reference_create Variable ''$a'' (6, 8))\<rparr>
   = Inl TypeError
   \<and> map_sum id (\<lambda>p. (references p, referenceNameSet p))
       (postorder absorb
         (SymbolsPass_new\<lparr>referenceNameSet := Some {}, transformerStack :=
            [Some (SimpleVariableTransform 1 (0, (6, 8))
               (Some (PhpSymbol_create Variable ''$a'' (Some (0, (6, 8)))))
               (Some (Reference_create Variable ''$a'' (6, 8))))]\<rparr>)
         \<lparr>nodeId = 1, nodePhraseType = Some SimpleVariable,
          nodeReference = OneReference (Reference_create Variable ''$a'' (6, 8))\<rparr>)
     = Inr ([], Some {''$a''})"
  by (simp add: postorder_def SymbolsPass_new_def pushToAncestor_def clearsPhpDoc_def
      collectReferences_def hasReferenceInfo_def addRefName_def referenceNameSet_add_def
      Reference_create_def)

section \<open>Properties of UniqueSymbolCollection\<close>











section \<open>Properties of the magic members\<close>

lemma modifiers_setModifiers [simp]: "modifiers (setModifiers m s) = m"
  by (simp add: setModifiers_def)
lemma modifiers_setDoc [simp]: "modifiers (setDoc d s) = modifiers s"
  by (simp add: setDoc_def)
lemma modifiers_setChildren [simp]: "modifiers (setChildren cs s) = modifiers s"
  by (simp add: setChildren_def)

lemma propertyTag_modifiers:
  "modifiers (propertyTagToSymbol nr t loc) =
     {Magic, Public} \<union> (if tagName t = ''@property-read'' then {ReadOnly}
                         else if tagName t = ''@property-write'' then {WriteOnly} else {})"
  by (auto simp: propertyTagToSymbol_def magicPropertyModifier_def)

lemma methodTag_modifiers:
  "modifiers (methodTagToSymbol nr t loc) =
     {Magic, Public} \<union> (if isStatic t then {Static} else {})"
  by (auto simp: methodTagToSymbol_def Let_def split: option.splits)

text \<open>
  The parameter symbols below a magic method are marked Magic and nothing else.
\<close>

lemma magicMethodParameter_modifiers:
  "modifiers (magicMethodParameterToSymbol nr p loc) = {Magic}"
  by (simp add: magicMethodParameterToSymbol_def)

lemma children_setModifiers [simp]: "children (setModifiers m s) = children s"
  by (simp add: setModifiers_def)
lemma children_setDoc [simp]: "children (setDoc d s) = children s"
  by (simp add: setDoc_def)
lemma children_setChildren [simp]: "children (setChildren cs s) = Some cs"
  by (simp add: setChildren_def)
lemma kind_setModifiers [simp]: "kind (setModifiers m s) = kind s"
  by (simp add: setModifiers_def)
lemma kind_setDoc [simp]: "kind (setDoc d s) = kind s"
  by (simp add: setDoc_def)

lemma propertyTag_children: "children (propertyTagToSymbol nr t loc) = None"
  by (simp add: propertyTagToSymbol_def PhpSymbol_create_def)

lemma methodTag_children:
  "children (methodTagToSymbol nr t loc) =
     Some (map (\<lambda>p. magicMethodParameterToSymbol nr p loc)
             (case parameters t of None \<Rightarrow> [] | Some ps \<Rightarrow> ps))"
  by (simp add: methodTagToSymbol_def Let_def split: option.splits)

lemma magicMethodParameter_kind: "kind (magicMethodParameterToSymbol nr p loc) = Parameter"
  by (simp add: magicMethodParameterToSymbol_def PhpSymbol_create_def)

lemma phpDocSymbols_cases:
  assumes "s \<in> set (phpDocSymbols nr phpDoc loc)"
  shows "s \<in> set (phpDocMembers nr phpDoc loc) \<or> (\<exists>p. s = magicMethodParameterToSymbol nr p loc)"
  using assms
  by (auto simp: phpDocSymbols_def withChildren_def phpDocMembers_def propertyTag_children
      methodTag_children split: option.splits)

text \<open>
  C8, amended. Every magic member, the symbol that \<open>phpDocMembers\<close> synthesises from a
  property or method tag of a doc comment, carries Magic and Public. The symbol of a
  property tag carries exactly Magic and Public, and ReadOnly when the tag is
  \<open>@property-read\<close>, WriteOnly when it is \<open>@property-write\<close>, and has no children; the
  symbol of a method tag carries exactly Magic and Public, and Static when the tag is
  static, and its children are the symbols of the tag's parameters. Every symbol
  synthesised from the tags carries Magic, and one that is not a member is a Parameter
  symbol that carries Magic and nothing else.
\<close>

theorem magic_member_modifiers:
  "(\<forall>s \<in> set (phpDocMembers nr phpDoc loc). Magic \<in> modifiers s \<and> Public \<in> modifiers s)
   \<and> (\<forall>t \<in> set (propertyTags phpDoc).
         propertyTagToSymbol nr t loc \<in> set (phpDocMembers nr phpDoc loc)
         \<and> modifiers (propertyTagToSymbol nr t loc) =
             {Magic, Public} \<union> (if tagName t = ''@property-read'' then {ReadOnly}
                                 else if tagName t = ''@property-write'' then {WriteOnly}
                                 else {})
         \<and> children (propertyTagToSymbol nr t loc) = None)
   \<and> (\<forall>t \<in> set (methodTags phpDoc).
         methodTagToSymbol nr t loc \<in> set (phpDocMembers nr phpDoc loc)
         \<and> modifiers (methodTagToSymbol nr t loc) =
             {Magic, Public} \<union> (if isStatic t then {Static} else {})
         \<and> children (methodTagToSymbol nr t loc) =
             Some (map (\<lambda>p. magicMethodParameterToSymbol nr p loc)
                     (case parameters t of None \<Rightarrow> [] | Some ps \<Rightarrow> ps)))
   \<and> (\<forall>s \<in> set (phpDocSymbols nr phpDoc loc).
         Magic \<in> modifiers s
         \<and> (s \<notin> set (phpDocMembers nr phpDoc loc) \<longrightarrow>
              kind s = Parameter \<and> modifiers s = {Magic}))"
proof -
  have A: "\<forall>s \<in> set (phpDocMembers nr phpDoc loc). Magic \<in> modifiers s \<and> Public \<in> modifiers s"
    by (auto simp: phpDocMembers_def propertyTag_modifiers methodTag_modifiers)
  have B: "\<forall>t \<in> set (propertyTags phpDoc).
         propertyTagToSymbol nr t loc \<in> set (phpDocMembers nr phpDoc loc)
         \<and> modifiers (propertyTagToSymbol nr t loc) =
             {Magic, Public} \<union> (if tagName t = ''@property-read'' then {ReadOnly}
                                 else if tagName t = ''@property-write'' then {WriteOnly}
                                 else {})
         \<and> children (propertyTagToSymbol nr t loc) = None"
    by (simp add: phpDocMembers_def propertyTag_modifiers propertyTag_children)
  have C: "\<forall>t \<in> set (methodTags phpDoc).
         methodTagToSymbol nr t loc \<in> set (phpDocMembers nr phpDoc loc)
         \<and> modifiers (methodTagToSymbol nr t loc) =
             {Magic, Public} \<union> (if isStatic t then {Static} else {})
         \<and> children (methodTagToSymbol nr t loc) =
             Some (map (\<lambda>p. magicMethodParameterToSymbol nr p loc)
                     (case parameters t of None \<Rightarrow> [] | Some ps \<Rightarrow> ps))"
    by (simp add: phpDocMembers_def methodTag_modifiers methodTag_children)
  have D: "Magic \<in> modifiers s
         \<and> (s \<notin> set (phpDocMembers nr phpDoc loc) \<longrightarrow>
              kind s = Parameter \<and> modifiers s = {Magic})"
    if "s \<in> set (phpDocSymbols nr phpDoc loc)" for s
    using phpDocSymbols_cases[OF that] A
    by (auto simp: magicMethodParameter_modifiers magicMethodParameter_kind)
  from A B C D show ?thesis by blast
qed

theorem magic_member_modifiers_witness:
  "map modifiers
     (phpDocMembers (\<lambda>t. t)
        \<lparr>docText = ''magic'',
         propertyTags =
           [\<lparr>tagName = ''@property'', tagSymbolName = ''$x'', tagDescription = [],
             tagTypeString = ''int'', isStatic = False, parameters = None\<rparr>,
            \<lparr>tagName = ''@property-read'', tagSymbolName = ''$y'', tagDescription = [],
             tagTypeString = ''int'', isStatic = False, parameters = None\<rparr>,
            \<lparr>tagName = ''@property-write'', tagSymbolName = ''$z'', tagDescription = [],
             tagTypeString = ''int'', isStatic = False, parameters = None\<rparr>],
         methodTags =
           [\<lparr>tagName = ''@method'', tagSymbolName = ''make'', tagDescription = [],
             tagTypeString = ''static'', isStatic = True,
             parameters = Some [\<lparr>paramTypeString = ''int'', paramName = ''$n''\<rparr>]\<rparr>]\<rparr>
        (0, (6, 40)))
   = [{Magic, Public}, {Magic, Public, ReadOnly}, {Magic, Public, WriteOnly},
      {Magic, Public, Static}]
   \<and> map modifiers
     (phpDocSymbols (\<lambda>t. t)
        \<lparr>docText = ''magic'',
         propertyTags =
           [\<lparr>tagName = ''@property'', tagSymbolName = ''$x'', tagDescription = [],
             tagTypeString = ''int'', isStatic = False, parameters = None\<rparr>,
            \<lparr>tagName = ''@property-read'', tagSymbolName = ''$y'', tagDescription = [],
             tagTypeString = ''int'', isStatic = False, parameters = None\<rparr>,
            \<lparr>tagName = ''@property-write'', tagSymbolName = ''$z'', tagDescription = [],
             tagTypeString = ''int'', isStatic = False, parameters = None\<rparr>],
         methodTags =
           [\<lparr>tagName = ''@method'', tagSymbolName = ''make'', tagDescription = [],
             tagTypeString = ''static'', isStatic = True,
             parameters = Some [\<lparr>paramTypeString = ''int'', paramName = ''$n''\<rparr>]\<rparr>]\<rparr>
        (0, (6, 40)))
   = [{Magic, Public}, {Magic, Public, ReadOnly}, {Magic, Public, WriteOnly},
      {Magic, Public, Static}, {Magic}]"
proof -
  let ?p = "\<lparr>tagName = ''@property'', tagSymbolName = ''$x'', tagDescription = [],
             tagTypeString = ''int'', isStatic = False, parameters = None\<rparr>"
  let ?r = "\<lparr>tagName = ''@property-read'', tagSymbolName = ''$y'', tagDescription = [],
             tagTypeString = ''int'', isStatic = False, parameters = None\<rparr>"
  let ?w = "\<lparr>tagName = ''@property-write'', tagSymbolName = ''$z'', tagDescription = [],
             tagTypeString = ''int'', isStatic = False, parameters = None\<rparr>"
  let ?m = "\<lparr>tagName = ''@method'', tagSymbolName = ''make'', tagDescription = [],
             tagTypeString = ''static'', isStatic = True,
             parameters = Some [\<lparr>paramTypeString = ''int'', paramName = ''$n''\<rparr>]\<rparr>"
  let ?doc = "\<lparr>docText = ''magic'', propertyTags = [?p, ?r, ?w], methodTags = [?m]\<rparr>"
  let ?loc = "(0, (6, 40)) :: PackedLocation"
  note law = magic_member_modifiers[of "\<lambda>t. t" ?doc ?loc]
  from law have props: "\<forall>t \<in> set (propertyTags ?doc).
      modifiers (propertyTagToSymbol (\<lambda>t. t) t ?loc) =
        {Magic, Public} \<union> (if tagName t = ''@property-read'' then {ReadOnly}
                            else if tagName t = ''@property-write'' then {WriteOnly} else {})"
    by blast
  from law have meths: "\<forall>t \<in> set (methodTags ?doc).
      modifiers (methodTagToSymbol (\<lambda>t. t) t ?loc) =
        {Magic, Public} \<union> (if isStatic t then {Static} else {})"
    by blast
  from props have 1: "modifiers (propertyTagToSymbol (\<lambda>t. t) ?p ?loc) = {Magic, Public}"
    and 2: "modifiers (propertyTagToSymbol (\<lambda>t. t) ?r ?loc) = {Magic, Public, ReadOnly}"
    and 3: "modifiers (propertyTagToSymbol (\<lambda>t. t) ?w ?loc) = {Magic, Public, WriteOnly}"
    by auto
  from meths have 4: "modifiers (methodTagToSymbol (\<lambda>t. t) ?m ?loc) = {Magic, Public, Static}"
    by auto
  show ?thesis
    by (simp add: phpDocSymbols_def withChildren_def phpDocMembers_def 1 2 3 4
        propertyTag_children methodTag_children magicMethodParameter_modifiers)
qed

text \<open>
  C8, as the claim states it, fails: the Parameter symbol synthesised for the parameter
  \<open>$n\<close> of the tag \<open>@method static make(int $n)\<close> is one of the symbols synthesised
  from a \<open>@method\<close> tag, and it carries Magic without Public.
\<close>

theorem magic_method_parameter_not_public:
  "magicMethodParameterToSymbol (\<lambda>t. t) \<lparr>paramTypeString = ''int'', paramName = ''$n''\<rparr> (0, (6, 40))
     \<in> set (phpDocSymbols (\<lambda>t. t)
         \<lparr>docText = ''magic'', propertyTags = [],
          methodTags =
            [\<lparr>tagName = ''@method'', tagSymbolName = ''make'', tagDescription = [],
              tagTypeString = ''static'', isStatic = True,
              parameters = Some [\<lparr>paramTypeString = ''int'', paramName = ''$n''\<rparr>]\<rparr>]\<rparr>
         (0, (6, 40)))
   \<and> modifiers (magicMethodParameterToSymbol (\<lambda>t. t)
        \<lparr>paramTypeString = ''int'', paramName = ''$n''\<rparr> (0, (6, 40))) = {Magic}
   \<and> Public \<notin> modifiers (magicMethodParameterToSymbol (\<lambda>t. t)
        \<lparr>paramTypeString = ''int'', paramName = ''$n''\<rparr> (0, (6, 40)))"
  by (simp add: phpDocSymbols_def withChildren_def phpDocMembers_def methodTag_children
      magicMethodParameter_modifiers)

section \<open>Properties of the member access transformer\<close>

text \<open>
  C9. When a member access of symbol kind Property (property access, scoped property
  access) absorbs its MemberName or ScopedMemberName transformer, the kind of the member
  reference becomes Property and, if the name is not empty and does not begin with
  \<open>$\<close>, a \<open>$\<close> is put in front of it; a name that begins with \<open>$\<close> or is empty stays.
  So every non-empty name of such a reference begins with \<open>$\<close>.
\<close>

theorem property_member_name_dollar:
  assumes "symbolKind self = Property"
  shows "MemberAccessExpressionTransform_push self (MemberNameTransform n r)
           = Inr (MemberNameTransform n (adornMemberName Property r))
       \<and> MemberAccessExpressionTransform_push self (ScopedMemberNameTransform n r)
           = Inr (ScopedMemberNameTransform n (adornMemberName Property r))
       \<and> refKind (adornMemberName Property r) = Property
       \<and> refName (adornMemberName Property r)
           = (if refName r \<noteq> [] \<and> hd (refName r) \<noteq> CHR ''$'' then CHR ''$'' # refName r
              else refName r)
       \<and> (refName r \<noteq> [] \<longrightarrow> hd (refName (adornMemberName Property r)) = CHR ''$'')"
  using assms
  by (auto simp: MemberAccessExpressionTransform_push_def adornMemberName_def Let_def)

theorem property_member_name_dollar_witness:
  "symbolKind \<lparr>accessPhraseType = PropertyAccessExpression, symbolKind = Property\<rparr> = Property
   \<and> MemberAccessExpressionTransform_push
        \<lparr>accessPhraseType = PropertyAccessExpression, symbolKind = Property\<rparr>
        (MemberNameTransform_push (MemberNameTransform_new 5 (0, (10, 14)))
           (TokenTransform 6 Name ''prop'' (0, (10, 14))))
      = Inr (MemberNameTransform 5
               (adornMemberName Property (Reference_create KindNone ''prop'' (10, 14))))
   \<and> refKind (adornMemberName Property (Reference_create KindNone ''prop'' (10, 14))) = Property
   \<and> refName (adornMemberName Property (Reference_create KindNone ''prop'' (10, 14))) = ''$prop''"
proof -
  let ?self = "\<lparr>accessPhraseType = PropertyAccessExpression, symbolKind = Property\<rparr>"
  let ?r = "Reference_create KindNone ''prop'' (10, 14)"
  have k: "symbolKind ?self = Property"
    by simp
  have child: "MemberNameTransform_push (MemberNameTransform_new 5 (0, (10, 14)))
           (TokenTransform 6 Name ''prop'' (0, (10, 14))) = MemberNameTransform 5 ?r"
    by (simp add: MemberNameTransform_new_def Reference_create_def locRange_def)
  have written: "refName ?r = ''prop''"
    by (simp add: Reference_create_def)
  from property_member_name_dollar[OF k, of 5 ?r] written
  have "MemberAccessExpressionTransform_push ?self (MemberNameTransform 5 ?r)
           = Inr (MemberNameTransform 5 (adornMemberName Property ?r))"
    and "refKind (adornMemberName Property ?r) = Property"
    and "refName (adornMemberName Property ?r) = ''$prop''"
    by simp_all
  with k child show ?thesis
    by simp
qed

section \<open>Properties of the qualified name transformer\<close>

lemma namespaceName_fold:
  "unresolvedName r = None \<Longrightarrow> refName r = w \<Longrightarrow>
   \<exists>w' r'. foldl NamespaceNameTransformer_push (NamespaceNameTransformer n w r) ts
        = NamespaceNameTransformer n w' r' \<and> unresolvedName r' = None \<and> refName r' = w'"
proof (induction ts arbitrary: w r)
  case Nil
  then show ?case by simp
next
  case (Cons t ts)
  show ?case
  proof (cases t)
    case (TokenTransform m tt tx loc)
    show ?thesis
    proof (cases "tt = Name")
      case True
      let ?w = "if w \<noteq> [] then w @ [backslash] @ tx else tx"
      have "unresolvedName (r\<lparr>refName := ?w\<rparr>) = None" "refName (r\<lparr>refName := ?w\<rparr>) = ?w"
        using Cons.prems by simp_all
      from Cons.IH[OF this] show ?thesis
        using TokenTransform True by (simp add: Let_def)
    next
      case False
      with Cons TokenTransform show ?thesis by simp
    qed
  qed (insert Cons, simp_all)
qed

lemma namespaceNameOf_shape:
  "\<exists>w r. namespaceNameOf n rg ts = NamespaceNameTransformer n w r
     \<and> unresolvedName r = None \<and> refName r = w"
  unfolding namespaceNameOf_def NamespaceNameTransformer_new_def
  by (rule namespaceName_fold) (simp_all add: Reference_create_def)

text \<open>
  C6. A QualifiedName transformer that absorbs its NamespaceName (built from any
  sequence of pushed tokens) gives a reference of the transformer's kind whose
  \<open>unresolvedName\<close> is the text as written when the kind is Function or Constant and
  the reference's name differs from the text as written, and is unset in every other
  case.
\<close>

theorem qualified_name_unresolvedName:
  "\<exists>r. QualifiedNameTransformer_push resolve self (namespaceNameOf n rg ts)
          = Inr (self\<lparr>qnReference := Some r\<rparr>)
      \<and> refKind r = qnKind self
      \<and> unresolvedName r =
          (if refName r \<noteq> namespaceNameText (namespaceNameOf n rg ts)
              \<and> (qnKind self = Function \<or> qnKind self = Constant)
           then Some (namespaceNameText (namespaceNameOf n rg ts)) else None)"
proof -
  from namespaceNameOf_shape[of n rg ts] obtain w r0 where
    nn: "namespaceNameOf n rg ts = NamespaceNameTransformer n w r0"
    and u: "unresolvedName r0 = None" and t: "refName r0 = w" by blast
  let ?k = "qnKind self"
  let ?r1 = "r0\<lparr>refKind := ?k\<rparr>"
  let ?r2 = "?r1\<lparr>refName := resolve w ?k\<rparr>"
  let ?r3 = "?r2\<lparr>unresolvedName := Some w\<rparr>"
  show ?thesis
  proof (cases "reservedWord (toLowerCase w)")
    case True
    have "QualifiedNameTransformer_push resolve self (NamespaceNameTransformer n w r0)
            = Inr (self\<lparr>qnReference := Some ?r1\<rparr>)"
      using True t by (simp add: QualifiedNameTransformer_push_def Let_def)
    moreover have "refKind ?r1 = ?k" "refName ?r1 = w" "unresolvedName ?r1 = None"
      using u t by simp_all
    ultimately show ?thesis
      unfolding nn by (intro exI[of _ ?r1]) simp
  next
    case False
    show ?thesis
    proof (cases "(?k = Function \<or> ?k = Constant) \<and> resolve w ?k \<noteq> w")
      case True
      have "QualifiedNameTransformer_push resolve self (NamespaceNameTransformer n w r0)
              = Inr (self\<lparr>qnReference := Some ?r3\<rparr>)"
        using True False t by (simp add: QualifiedNameTransformer_push_def Let_def)
      moreover have "refKind ?r3 = ?k" "refName ?r3 = resolve w ?k" "unresolvedName ?r3 = Some w"
        by simp_all
      ultimately show ?thesis
        unfolding nn using True by (intro exI[of _ ?r3]) simp
    next
      case nochange: False
      have "QualifiedNameTransformer_push resolve self (NamespaceNameTransformer n w r0)
              = Inr (self\<lparr>qnReference := Some ?r2\<rparr>)"
        using nochange False t by (auto simp: QualifiedNameTransformer_push_def Let_def)
      moreover have "refKind ?r2 = ?k" "refName ?r2 = resolve w ?k" "unresolvedName ?r2 = None"
        using u by simp_all
      ultimately show ?thesis
        unfolding nn using nochange by (intro exI[of _ ?r2]) auto
    qed
  qed
qed

theorem qualified_name_unresolvedName_witness:
  "\<exists>r. QualifiedNameTransformer_push (\<lambda>n k. ''App'' @ [backslash] @ n)
          (QualifiedNameTransformer_new Function)
          (namespaceNameOf 3 (6, 12) [TokenTransform 4 Name ''strlen'' (0, (6, 12))])
        = Inr ((QualifiedNameTransformer_new Function)\<lparr>qnReference := Some r\<rparr>)
      \<and> refKind r = Function
      \<and> refName r = ''App'' @ [backslash] @ ''strlen''
      \<and> unresolvedName r = Some ''strlen''"
proof -
  let ?resolve = "\<lambda>(n::string) (k::SymbolKind). ''App'' @ [backslash] @ n"
  let ?self = "QualifiedNameTransformer_new Function"
  let ?ts = "[TokenTransform 4 Name ''strlen'' (0, (6, 12))]"
  let ?nn = "namespaceNameOf 3 (6, 12) ?ts"
  have written: "namespaceNameText ?nn = ''strlen''"
    by (simp add: namespaceNameOf_def NamespaceNameTransformer_new_def Let_def)
  have k: "qnKind ?self = Function"
    by (simp add: QualifiedNameTransformer_new_def)
  have notReserved: "\<not> reservedWord (toLowerCase ''strlen'')"
    by code_simp
  have eval: "QualifiedNameTransformer_push ?resolve ?self ?nn
     = Inr (?self\<lparr>qnReference := Some
          \<lparr>refKind = Function, refName = ''App'' @ [backslash] @ ''strlen'', refRange = (6, 12),
           unresolvedName = Some ''strlen'', refType = None\<rparr>\<rparr>)"
    using notReserved
    by (simp add: QualifiedNameTransformer_push_def namespaceNameOf_def Let_def
        NamespaceNameTransformer_new_def Reference_create_def QualifiedNameTransformer_new_def)
  from qualified_name_unresolvedName[of ?resolve ?self 3 "(6, 12)" ?ts]
  obtain r where
    p: "QualifiedNameTransformer_push ?resolve ?self ?nn = Inr (?self\<lparr>qnReference := Some r\<rparr>)"
    and rk: "refKind r = qnKind ?self"
    and u: "unresolvedName r =
          (if refName r \<noteq> namespaceNameText ?nn \<and> (qnKind ?self = Function \<or> qnKind ?self = Constant)
           then Some (namespaceNameText ?nn) else None)"
    by blast
  from p eval have r: "r = \<lparr>refKind = Function, refName = ''App'' @ [backslash] @ ''strlen'',
       refRange = (6, 12), unresolvedName = Some ''strlen'', refType = None\<rparr>"
    by (simp add: QualifiedNameTransformer_new_def)
  then have n: "refName r = ''App'' @ [backslash] @ ''strlen''"
    by simp
  from u n written k have un: "unresolvedName r = Some ''strlen''"
    by simp
  from rk k have rk': "refKind r = Function"
    by simp
  show ?thesis
    using p rk' n un by (intro exI[of _ r] conjI)
qed

text \<open>
  C7. When the lower-cased text of the NamespaceName is one of the reserved words, the
  QualifiedName transformer leaves the name of the reference as it was written, whatever
  the resolver would return, and sets no \<open>unresolvedName\<close>.
\<close>

theorem reserved_word_unchanged:
  assumes "toLowerCase (namespaceNameText (namespaceNameOf n rg ts)) \<in> set RESERVED_WORDS"
  shows "\<exists>r. QualifiedNameTransformer_push resolve self (namespaceNameOf n rg ts)
          = Inr (self\<lparr>qnReference := Some r\<rparr>)
      \<and> refName r = namespaceNameText (namespaceNameOf n rg ts)
      \<and> unresolvedName r = None"
proof -
  from namespaceNameOf_shape[of n rg ts] obtain w r0 where
    nn: "namespaceNameOf n rg ts = NamespaceNameTransformer n w r0"
    and u: "unresolvedName r0 = None" and t: "refName r0 = w" by blast
  let ?r1 = "r0\<lparr>refKind := qnKind self\<rparr>"
  from assms have res: "reservedWord (toLowerCase w)"
    unfolding nn by (simp add: reservedWord_def)
  have "QualifiedNameTransformer_push resolve self (NamespaceNameTransformer n w r0)
          = Inr (self\<lparr>qnReference := Some ?r1\<rparr>)"
    using res t by (simp add: QualifiedNameTransformer_push_def Let_def)
  moreover have "refName ?r1 = w" "unresolvedName ?r1 = None"
    using u t by simp_all
  ultimately show ?thesis
    unfolding nn by (intro exI[of _ ?r1]) simp
qed

theorem reserved_word_unchanged_witness:
  "toLowerCase ''String'' \<in> set RESERVED_WORDS
   \<and> (\<exists>r. QualifiedNameTransformer_push (\<lambda>n k. ''App'' @ [backslash] @ n)
             (QualifiedNameTransformer_new Class)
             (namespaceNameOf 3 (6, 12) [TokenTransform 4 Name ''String'' (0, (6, 12))])
           = Inr ((QualifiedNameTransformer_new Class)\<lparr>qnReference := Some r\<rparr>)
        \<and> refName r = ''String'' \<and> unresolvedName r = None)"
proof -
  let ?nn = "namespaceNameOf 3 (6, 12) [TokenTransform 4 Name ''String'' (0, (6, 12))]"
  have written: "namespaceNameText ?nn = ''String''"
    by (simp add: namespaceNameOf_def NamespaceNameTransformer_new_def Let_def)
  have reserved: "toLowerCase ''String'' \<in> set RESERVED_WORDS"
    by code_simp
  from reserved_word_unchanged[of 3 "(6, 12)" "[TokenTransform 4 Name ''String'' (0, (6, 12))]"
      "\<lambda>n k. ''App'' @ [backslash] @ n" "QualifiedNameTransformer_new Class"]
    reserved written
  show ?thesis
    by simp
qed

end
